theory Spec2Isabelle
  imports Main
begin

section \<open>Fast-chroot: the LXC runtime shim (src/lxc_runtime/runtime.cpp)\<close>

text \<open>
  The program has three functions: \<^verbatim>\<open>show_help\<close>, \<^verbatim>\<open>runtime\<close> and \<^verbatim>\<open>main\<close>.
  Everything it does is an effect: it writes lines to \<^verbatim>\<open>cout\<close> and, on one path,
  hands one command line to \<^verbatim>\<open>system()\<close>. The embedding threads the sequence of
  these effects through the functions, oldest first, and takes the operating
  system's answer to \<^verbatim>\<open>system()\<close> as a parameter.
\<close>

subsection \<open>Effects and the environment\<close>

text \<open>
  \<open>Print s\<close>: the bytes \<open>s\<close> written to standard output and flushed.
  \<open>System c\<close>: a call \<^verbatim>\<open>system(c)\<close>; the C library runs \<^verbatim>\<open>/bin/sh -c c\<close>, so
  \<open>c\<close> is one string that the shell splits and interprets. What the child
  itself writes is the child's output, not an event of the program.
\<close>

datatype event = Print string | System string

text \<open>
  What \<^verbatim>\<open>system()\<close> returns for a command line: \<open>Some status\<close> is the returned
  \<^verbatim>\<open>int\<close> (the wait status of the shell, or \<open>-1\<close> when no child process could be
  created); \<open>None\<close> is a child that never terminates, so that the call never returns.
\<close>

type_synonym os = "string \<Rightarrow> int option"

text \<open>
  How a call ends: it returns a value, it stays blocked inside \<^verbatim>\<open>system()\<close>, or it
  has read \<^verbatim>\<open>argv\<close> out of range.
\<close>

datatype 'a outcome = Returned 'a | Blocked | Undefined

text \<open>
  The wait status of a child that exited with code \<open>n\<close> (below 256): the code sits
  in bits 8 to 15. A shell that does not find the executable exits with code 127.
\<close>

definition exit_status :: "nat \<Rightarrow> int" where
  "exit_status n = int n * 256"

text \<open>The command lines of the \<open>System\<close> events of a trace, in order.\<close>

fun launches :: "event list \<Rightarrow> string list" where
  "launches [] = []"
| "launches (Print s # es) = launches es"
| "launches (System c # es) = c # launches es"

subsection \<open>The string literals of the source\<close>

definition help_banner :: string where
  "help_banner = ''LXC Continer prototip''"

text \<open>The two Russian messages of \<^verbatim>\<open>runtime\<close>, as the UTF-8 bytes of the source file.\<close>

definition start_message :: string where
  "start_message =
     [CHR 0xD0, CHR 0x97, CHR 0xD0, CHR 0xB0, CHR 0xD0, CHR 0xBF, CHR 0xD1, CHR 0x83,
      CHR 0xD1, CHR 0x81, CHR 0xD0, CHR 0xBA, CHR '' '', CHR 0xD0, CHR 0xB2, CHR '' '',
      CHR 0xD0, CHR 0xBA, CHR 0xD0, CHR 0xBE, CHR 0xD0, CHR 0xBD, CHR 0xD1, CHR 0x82,
      CHR 0xD0, CHR 0xB5, CHR 0xD0, CHR 0xB9, CHR 0xD0, CHR 0xBD, CHR 0xD0, CHR 0xB5,
      CHR 0xD1, CHR 0x80, CHR 0xD0, CHR 0xB5]"

definition stop_message :: string where
  "stop_message =
     [CHR 0xD0, CHR 0x9E, CHR 0xD1, CHR 0x81, CHR 0xD1, CHR 0x82, CHR 0xD0, CHR 0xB0,
      CHR 0xD0, CHR 0xBD, CHR 0xD0, CHR 0xBE, CHR 0xD0, CHR 0xB2, CHR 0xD0, CHR 0xBA,
      CHR 0xD0, CHR 0xB0, CHR '' '', CHR 0xD0, CHR 0xBA, CHR 0xD0, CHR 0xBE, CHR 0xD0,
      CHR 0xBD, CHR 0xD1, CHR 0x82, CHR 0xD0, CHR 0xB5, CHR 0xD0, CHR 0xB9, CHR 0xD0,
      CHR 0xBD, CHR 0xD0, CHR 0xB5, CHR 0xD1, CHR 0x80, CHR 0xD0, CHR 0xB0]"

definition runtime_command :: string where
  "runtime_command = ''sudo lxc-start -f config/chroot.conf -n chroot -F''"

subsection \<open>The functions\<close>

text \<open>\<^verbatim>\<open>cout << s << endl\<close>: the string, a newline, and a flush.\<close>

definition put_line :: "string \<Rightarrow> event list \<Rightarrow> event list" where
  "put_line s out = out @ [Print (s @ [CHR 0x0A])]"

definition show_help :: "event list \<Rightarrow> event list" where
  "show_help out = put_line help_banner out"

text \<open>
  \<^verbatim>\<open>void runtime()\<close>: the value of \<^verbatim>\<open>system()\<close> is not stored, tested or returned;
  the function returns nothing.
\<close>

definition runtime :: "os \<Rightarrow> event list \<Rightarrow> event list \<times> unit outcome" where
  "runtime sys out =
     (let out1 = put_line start_message out;
          out2 = out1 @ [System runtime_command]
      in case sys runtime_command of
           None \<Rightarrow> (out2, Blocked)
         | Some status \<Rightarrow> (put_line stop_message out2, Returned ()))"

text \<open>
  \<^verbatim>\<open>int main(int args, char* argv[])\<close>: \<open>argv\<close> is the whole vector, the program's
  name first, and \<open>args\<close> is its length. With an empty vector the test
  \<^verbatim>\<open>args == 1\<close> fails and \<^verbatim>\<open>argv[1]\<close> is read past the end of the array.
  The second component is the process's exit code.
\<close>

definition main :: "string list \<Rightarrow> os \<Rightarrow> event list \<times> int outcome" where
  "main argv sys =
     (let args = length argv in
      if args = 1 then (show_help [], Returned 0)
      else if args = 0 then ([], Undefined)
      else
        let action = argv ! 1 in
        if action = ''--use-runtime'' then
          (case runtime sys [] of
             (out, Returned u) \<Rightarrow> (out, Returned 0)
           | (out, Blocked) \<Rightarrow> (out, Blocked)
           | (out, Undefined) \<Rightarrow> (out, Undefined))
        else if action = ''--help'' then (show_help [], Returned 0)
        else ([], Returned 0))"

section \<open>Properties\<close>

subsection \<open>Helper facts\<close>

lemma two_le_length: "2 \<le> length xs \<longleftrightarrow> xs \<noteq> [] \<and> length xs \<noteq> Suc 0"
proof -
  have "length xs = 0 \<or> length xs = 1 \<or> 2 \<le> length xs"
    by arith
  then show ?thesis
    by auto
qed

lemma launches_append: "launches (xs @ ys) = launches xs @ launches ys"
  by (induction xs rule: launches.induct) simp_all

lemma launches_put_line: "launches (put_line s out) = launches out"
  by (simp add: put_line_def launches_append)

lemma runtime_returns:
  "sys runtime_command = Some status \<Longrightarrow>
   runtime sys out =
     (out @ [Print (start_message @ [CHR 0x0A]), System runtime_command,
             Print (stop_message @ [CHR 0x0A])], Returned ())"
  by (simp add: runtime_def put_line_def)

lemma runtime_blocks:
  "sys runtime_command = None \<Longrightarrow>
   runtime sys out =
     (out @ [Print (start_message @ [CHR 0x0A]), System runtime_command], Blocked)"
  by (simp add: runtime_def put_line_def)

lemma main_use_runtime:
  "2 \<le> length argv \<Longrightarrow> argv ! 1 = ''--use-runtime'' \<Longrightarrow>
   main argv sys =
     (case runtime sys [] of
        (out, Returned u) \<Rightarrow> (out, Returned 0)
      | (out, Blocked) \<Rightarrow> (out, Blocked)
      | (out, Undefined) \<Rightarrow> (out, Undefined))"
  by (auto simp: main_def)

lemma main_use_runtime_returns:
  "2 \<le> length argv \<Longrightarrow> argv ! 1 = ''--use-runtime'' \<Longrightarrow>
   sys runtime_command = Some status \<Longrightarrow>
   main argv sys =
     ([Print (start_message @ [CHR 0x0A]), System runtime_command,
       Print (stop_message @ [CHR 0x0A])], Returned 0)"
  by (simp add: main_use_runtime runtime_returns [of sys status "[]"])

text \<open>A child that never terminates keeps the program inside \<^verbatim>\<open>system()\<close>.\<close>

lemma main_use_runtime_blocks:
  "2 \<le> length argv \<Longrightarrow> argv ! 1 = ''--use-runtime'' \<Longrightarrow>
   sys runtime_command = None \<Longrightarrow>
   main argv sys =
     ([Print (start_message @ [CHR 0x0A]), System runtime_command], Blocked)"
  by (simp add: main_use_runtime runtime_blocks [of sys "[]"])

lemma main_launches:
  "launches (fst (main argv sys)) =
     (if 2 \<le> length argv \<and> argv ! 1 = ''--use-runtime'' then [runtime_command] else [])"
  by (cases "sys runtime_command")
     (auto simp: main_def Let_def runtime_def show_help_def put_line_def launches_append
        two_le_length)

subsection \<open>The command given to the shell\<close>

text \<open>
  Claim C1 says that the arguments of the external command reach the child as a
  discrete argument vector and are never part of a shell command string. The code
  calls \<^verbatim>\<open>system()\<close> with one string, so the claim fails as stated (the
  counterexample follows the witness). Claim C1 as amended: every command line
  that a run hands to the shell is the one string literal of the source,
  \<^verbatim>\<open>sudo lxc-start -f config/chroot.conf -n chroot -F\<close>, whatever the program's
  own arguments are; no argument of the program is ever made part of it.
\<close>

theorem launches_only_fixed_command:
  "c \<in> set (launches (fst (main argv sys))) \<Longrightarrow> c = runtime_command"
  by (simp add: main_launches split: if_splits)

theorem launches_only_fixed_command_witness:
  "''sudo lxc-start -f config/chroot.conf -n chroot -F''
     \<in> set (launches (fst (main [''fast-chroot'', ''--use-runtime'', ''; rm -rf /'']
                               (\<lambda>c. Some 0)))) \<and>
   ''sudo lxc-start -f config/chroot.conf -n chroot -F'' = runtime_command"
  using launches_only_fixed_command
    [of "''sudo lxc-start -f config/chroot.conf -n chroot -F''"
        "[''fast-chroot'', ''--use-runtime'', ''; rm -rf /'']" "\<lambda>c. Some 0"]
  by (simp add: main_launches runtime_command_def)

text \<open>
  The launch of a run with \<^verbatim>\<open>--use-runtime\<close> is a single string given to
  \<^verbatim>\<open>system()\<close>: the executable and its five arguments are joined by spaces in it,
  and the shell takes it apart again.
\<close>

theorem shell_command_string_counterexample:
  "launches (fst (main [''fast-chroot'', ''--use-runtime''] (\<lambda>c. Some 0))) =
     [''sudo lxc-start -f config/chroot.conf -n chroot -F'']"
  by (simp add: main_launches runtime_command_def)

subsection \<open>The command-line interface\<close>

text \<open>
  Claim C2: when the first argument is \<^verbatim>\<open>--use-runtime\<close>, the program invokes the
  fixed external command and then terminates with exit code 0, whatever
  \<^verbatim>\<open>system()\<close> returned: the wait status of any exit code, or \<open>-1\<close> when the child
  could not be spawned.
\<close>

theorem use_runtime_exits_zero:
  "2 \<le> length argv \<Longrightarrow> argv ! 1 = ''--use-runtime'' \<Longrightarrow>
   sys runtime_command = Some status \<Longrightarrow>
   launches (fst (main argv sys)) = [runtime_command] \<and> snd (main argv sys) = Returned 0"
  by (simp add: main_launches main_use_runtime_returns [of argv sys status])

theorem use_runtime_exits_zero_witness:
  "2 \<le> length [''fast-chroot'', ''--use-runtime''] \<and>
   [''fast-chroot'', ''--use-runtime''] ! 1 = ''--use-runtime'' \<and>
   (\<lambda>c. Some (- 1)) runtime_command = Some (- 1 :: int) \<and>
   launches (fst (main [''fast-chroot'', ''--use-runtime''] (\<lambda>c. Some (- 1)))) =
     [runtime_command] \<and>
   snd (main [''fast-chroot'', ''--use-runtime''] (\<lambda>c. Some (- 1))) = Returned 0"
  using use_runtime_exits_zero
    [of "[''fast-chroot'', ''--use-runtime'']" "\<lambda>c. Some (- 1)" "- 1"]
  by simp

text \<open>
  Claim C6: with no arguments, and with \<^verbatim>\<open>--help\<close> as the first argument, the
  program prints the usage banner and terminates with exit code 0.
\<close>

theorem help_prints_banner:
  "length argv = 1 \<or> (2 \<le> length argv \<and> argv ! 1 = ''--help'') \<Longrightarrow>
   main argv sys = ([Print (help_banner @ [CHR 0x0A])], Returned 0)"
  by (auto simp: main_def show_help_def put_line_def)

theorem help_prints_banner_witness:
  "length [''fast-chroot''] = 1 \<and>
   main [''fast-chroot''] (\<lambda>c. None) = ([Print (help_banner @ [CHR 0x0A])], Returned 0) \<and>
   2 \<le> length [''fast-chroot'', ''--help'', ''x''] \<and>
   [''fast-chroot'', ''--help'', ''x''] ! 1 = ''--help'' \<and>
   main [''fast-chroot'', ''--help'', ''x''] (\<lambda>c. None) =
     ([Print (help_banner @ [CHR 0x0A])], Returned 0)"
  using help_prints_banner [of "[''fast-chroot'']" "\<lambda>c. None"]
    help_prints_banner [of "[''fast-chroot'', ''--help'', ''x'']" "\<lambda>c. None"]
  by simp

text \<open>
  Claim C8: when the first argument is neither \<^verbatim>\<open>--help\<close> nor
  \<^verbatim>\<open>--use-runtime\<close>, the program prints nothing and terminates with exit code 0.
\<close>

theorem other_argument_silent:
  "2 \<le> length argv \<Longrightarrow> argv ! 1 \<noteq> ''--help'' \<Longrightarrow> argv ! 1 \<noteq> ''--use-runtime'' \<Longrightarrow>
   main argv sys = ([], Returned 0)"
  by (auto simp: main_def)

theorem other_argument_silent_witness:
  "2 \<le> length [''fast-chroot'', ''--version''] \<and>
   [''fast-chroot'', ''--version''] ! 1 \<noteq> ''--help'' \<and>
   [''fast-chroot'', ''--version''] ! 1 \<noteq> ''--use-runtime'' \<and>
   main [''fast-chroot'', ''--version''] (\<lambda>c. Some 0) = ([], Returned 0)"
  using other_argument_silent [of "[''fast-chroot'', ''--version'']" "\<lambda>c. Some 0"]
  by simp

text \<open>
  Claim C10: the output and the exit code depend only on whether there is a first
  argument and on its value. Two runs in the same environment that both have no
  arguments, or that agree on \<^verbatim>\<open>argv[1]\<close>, behave identically, whatever the later
  arguments (and the program's name) are.
\<close>

theorem later_arguments_ignored:
  "(length a = 1 \<and> length b = 1) \<or> (2 \<le> length a \<and> 2 \<le> length b \<and> a ! 1 = b ! 1) \<Longrightarrow>
   main a sys = main b sys"
  by (auto simp: main_def)

theorem later_arguments_ignored_witness:
  "2 \<le> length [''fast-chroot'', ''--use-runtime''] \<and>
   2 \<le> length [''./a.out'', ''--use-runtime'', ''; rm -rf /'', ''--help''] \<and>
   [''fast-chroot'', ''--use-runtime''] ! 1 =
     [''./a.out'', ''--use-runtime'', ''; rm -rf /'', ''--help''] ! 1 \<and>
   main [''fast-chroot'', ''--use-runtime''] (\<lambda>c. Some 256) =
     main [''./a.out'', ''--use-runtime'', ''; rm -rf /'', ''--help''] (\<lambda>c. Some 256)"
  using later_arguments_ignored
    [of "[''fast-chroot'', ''--use-runtime'']"
        "[''./a.out'', ''--use-runtime'', ''; rm -rf /'', ''--help'']" "\<lambda>c. Some 256"]
  by simp

subsection \<open>The runtime operation\<close>

text \<open>
  Claim C7: a run launches the external command at most once. There is no retry
  after a failed or completed launch, and since \<^verbatim>\<open>system()\<close> is the only launch and
  is synchronous, at most one launch is in flight at any time.
\<close>

theorem at_most_one_launch:
  "length (launches (fst (main argv sys))) \<le> 1"
  by (simp add: main_launches)

text \<open>
  Claim C9: whenever \<^verbatim>\<open>runtime\<close> is invoked, the start message is printed before
  the external command is invoked, and the stop message is printed after
  \<^verbatim>\<open>system()\<close> returns, whatever it returns: there is no test on the status, so the
  stop message also follows a command that failed or could not be spawned. (While
  \<^verbatim>\<open>system()\<close> has not returned, nothing follows the launch.)
\<close>

theorem runtime_messages_bracket_command:
  "fst (runtime sys out) =
     out @ [Print (start_message @ [CHR 0x0A]), System runtime_command] @
     (case sys runtime_command of
        None \<Rightarrow> []
      | Some status \<Rightarrow> [Print (stop_message @ [CHR 0x0A])])"
  by (simp add: runtime_def put_line_def split: option.split)

subsection \<open>The child's exit status\<close>

text \<open>
  Claim C3 says that a non-zero exit status of the child is surfaced to the caller
  and never discarded unreported. The code discards it (the counterexample
  follows the witness). Claim C3 as amended: for every launch
  whose child runs and terminates with a non-zero status, \<^verbatim>\<open>runtime\<close> gives its
  caller exactly what it gives for status 0 (no value, and the same two messages),
  and the whole run (what the program prints, and its exit code) is the same as for
  status 0: the status is not reported.
\<close>

theorem nonzero_status_not_surfaced:
  "sys runtime_command = Some status \<Longrightarrow> status \<noteq> 0 \<Longrightarrow>
   runtime sys out = runtime (\<lambda>c. Some 0) out \<and> main argv sys = main argv (\<lambda>c. Some 0)"
proof -
  assume ret: "sys runtime_command = Some status"
  have same: "runtime sys out' = runtime (\<lambda>c. Some 0) out'" for out'
    using ret by (simp add: runtime_def)
  show ?thesis
    by (simp add: main_def Let_def same)
qed

theorem nonzero_status_not_surfaced_witness:
  "(\<lambda>c. Some (exit_status 3)) runtime_command = Some (exit_status 3) \<and>
   exit_status 3 \<noteq> 0 \<and>
   runtime (\<lambda>c. Some (exit_status 3)) [] = runtime (\<lambda>c. Some 0) [] \<and>
   main [''fast-chroot'', ''--use-runtime''] (\<lambda>c. Some (exit_status 3)) =
     main [''fast-chroot'', ''--use-runtime''] (\<lambda>c. Some 0)"
  using nonzero_status_not_surfaced
    [of "\<lambda>c. Some (exit_status 3)" "exit_status 3" "[]" "[''fast-chroot'', ''--use-runtime'']"]
  by (simp add: exit_status_def)

text \<open>
  A run whose child exits with code 1: the program prints the two fixed messages
  and exits with code 0, and nothing it does distinguishes the run from one whose
  child exits with code 0.
\<close>

theorem nonzero_exit_discarded_counterexample:
  "main [''fast-chroot'', ''--use-runtime''] (\<lambda>c. Some (exit_status 1)) =
     main [''fast-chroot'', ''--use-runtime''] (\<lambda>c. Some (exit_status 0)) \<and>
   main [''fast-chroot'', ''--use-runtime''] (\<lambda>c. Some (exit_status 1)) =
     ([Print (start_message @ [CHR 0x0A]), System runtime_command,
       Print (stop_message @ [CHR 0x0A])], Returned 0)"
  by (simp add: main_def runtime_def put_line_def)

text \<open>
  Claim C4 says that a launch whose command exits with code \<open>N\<close> returns the
  result \<open>Exited(N)\<close>. \<^verbatim>\<open>runtime\<close> is a \<^verbatim>\<open>void\<close> function, and what it returns does
  not depend on \<open>N\<close> (the counterexample follows the witness). Claim C4 as
  amended: for every launch whose command runs and exits with code \<open>N\<close>, \<^verbatim>\<open>runtime\<close>
  returns normally with no value, and its result is the same for every \<open>N\<close>, in
  particular for 0, 1 and 127.
\<close>

theorem runtime_result_independent_of_exit_code:
  "sys1 runtime_command = Some (exit_status n) \<Longrightarrow>
   sys2 runtime_command = Some (exit_status m) \<Longrightarrow>
   snd (runtime sys1 out) = Returned () \<and> runtime sys1 out = runtime sys2 out"
  by (simp add: runtime_def)

theorem runtime_result_independent_of_exit_code_witness:
  "(\<lambda>c. Some (exit_status 0)) runtime_command = Some (exit_status 0) \<and>
   (\<lambda>c. Some (exit_status 127)) runtime_command = Some (exit_status 127) \<and>
   exit_status 0 \<noteq> exit_status 127 \<and>
   snd (runtime (\<lambda>c. Some (exit_status 0)) []) = Returned () \<and>
   runtime (\<lambda>c. Some (exit_status 0)) [] = runtime (\<lambda>c. Some (exit_status 127)) []"
  using runtime_result_independent_of_exit_code
    [of "\<lambda>c. Some (exit_status 0)" 0 "\<lambda>c. Some (exit_status 127)" 127 "[]"]
  by (simp add: exit_status_def runtime_def)

text \<open>
  The results for the exit codes 0, 1 and 127 are one and the same value, so none
  of them carries the code.
\<close>

theorem exit_code_not_returned_counterexample:
  "runtime (\<lambda>c. Some (exit_status 0)) [] = runtime (\<lambda>c. Some (exit_status 1)) [] \<and>
   runtime (\<lambda>c. Some (exit_status 1)) [] = runtime (\<lambda>c. Some (exit_status 127)) [] \<and>
   exit_status 0 \<noteq> exit_status 1 \<and> exit_status 1 \<noteq> exit_status 127"
  by (simp add: runtime_def exit_status_def)

text \<open>
  Claim C5 says that a launch of a non-existent executable returns the error kind
  \<open>LaunchFailed\<close>, never a normal result, and does not block. With a missing
  executable \<^verbatim>\<open>system()\<close> returns: the shell exits with code 127, or, when no child
  could be created at all, the value is \<open>-1\<close>. \<^verbatim>\<open>runtime\<close> then returns normally
  (the counterexample follows the witness). Claim C5 as amended: for every launch
  whose executable does not exist, \<^verbatim>\<open>runtime\<close> does not block: it prints the stop
  message and returns normally, with no error, exactly as after a successful launch.
\<close>

theorem missing_executable_returns_normally:
  "sys runtime_command = Some status \<Longrightarrow> status = exit_status 127 \<or> status = - 1 \<Longrightarrow>
   runtime sys out =
     (out @ [Print (start_message @ [CHR 0x0A]), System runtime_command,
             Print (stop_message @ [CHR 0x0A])], Returned ()) \<and>
   runtime sys out = runtime (\<lambda>c. Some 0) out"
  by (simp add: runtime_def put_line_def)

theorem missing_executable_returns_normally_witness:
  "(\<lambda>c. Some (exit_status 127)) runtime_command = Some (exit_status 127) \<and>
   runtime (\<lambda>c. Some (exit_status 127)) [Print ''x''] =
     ([Print ''x'', Print (start_message @ [CHR 0x0A]), System runtime_command,
       Print (stop_message @ [CHR 0x0A])], Returned ()) \<and>
   runtime (\<lambda>c. Some (exit_status 127)) [Print ''x''] = runtime (\<lambda>c. Some 0) [Print ''x'']"
  using missing_executable_returns_normally
    [of "\<lambda>c. Some (exit_status 127)" "exit_status 127" "[Print ''x'']"]
  by auto

text \<open>
  The shell reports a missing executable with exit code 127; \<^verbatim>\<open>runtime\<close> returns
  normally, and the program exits with code 0.
\<close>

theorem missing_executable_counterexample:
  "snd (runtime (\<lambda>c. Some (exit_status 127)) []) = Returned () \<and>
   snd (main [''fast-chroot'', ''--use-runtime''] (\<lambda>c. Some (exit_status 127))) = Returned 0"
  by (simp add: main_def runtime_def)

end
